theory Spec2Isabelle
  imports Main "HOL-Library.Word"
begin

section \<open>The Go key/value SDK of Spin (sdk/go/kv/kv.go)\<close>

text \<open>
  The package is a thin layer over six host functions that are reached through cgo.
  The model keeps the three things the layer does: it marshals Go strings and byte
  slices into pointer/length descriptors, it issues one host call, and it decodes the
  tagged result. A run-time panic of Go is a value of type \<open>fault\<close> on the left of a sum.
\<close>

subsection \<open>Data\<close>

type_synonym byte = "8 word"

text \<open>What stops a Go call: an index expression out of range, a negative length handed
  to a cgo copy function, and a copy that reads past the region a pointer refers to.\<close>

datatype fault = IndexOutOfRange | LengthOutOfRange | OutOfBoundsRead

text \<open>
  Modelled from the spec: the C types of key-value.h, which is not among the sources.
  A descriptor is a pointer and a length; the error union is a tag (\<open>tag: int\<close>) and, for
  the IO tag, a string descriptor as payload; a result is either the success value or
  an error union, selected by \<open>is_err\<close>. A pointer is modelled by the bytes of the
  region it points into, from the pointed-to element on; the length field is the
  \<open>size_t\<close> beside it.
\<close>

record key_value_string_t =
  str_ptr :: string
  str_len :: nat

record key_value_list_u8_t =
  list_ptr :: "byte list"
  list_len :: nat

text \<open>The payload region is there for every tag and is only meaningful for IO.\<close>

record key_value_error_t =
  tag :: int
  val :: key_value_string_t

text \<open>\<open>key_value_expected_*_error_t\<close>: \<open>is_err\<close> selects how \<open>val\<close> is read.\<close>

datatype 'a expected = Ok 'a | Err key_value_error_t

type_synonym key_value_store_t = "32 word"

record Store =
  name :: string
  active :: bool
  ptr :: key_value_store_t

record Error =
  Code :: int
  Message :: string

subsection \<open>The host\<close>

text \<open>The six imported functions, over a host state \<open>'h\<close> that the SDK never inspects.\<close>

record 'h host =
  key_value_open :: "key_value_string_t \<Rightarrow> 'h \<Rightarrow> key_value_store_t expected \<times> 'h"
  key_value_close :: "32 word \<Rightarrow> 'h \<Rightarrow> 'h"
  key_value_get :: "32 word \<Rightarrow> key_value_string_t \<Rightarrow> 'h \<Rightarrow> key_value_list_u8_t expected \<times> 'h"
  key_value_delete :: "32 word \<Rightarrow> key_value_string_t \<Rightarrow> 'h \<Rightarrow> unit expected \<times> 'h"
  key_value_set :: "32 word \<Rightarrow> key_value_string_t \<Rightarrow> key_value_list_u8_t \<Rightarrow> 'h \<Rightarrow> unit expected \<times> 'h"
  key_value_exists :: "32 word \<Rightarrow> key_value_string_t \<Rightarrow> 'h \<Rightarrow> bool expected \<times> 'h"

text \<open>Every host call is recorded, so that "no host call is made" can be stated.\<close>

datatype hostcall =
    CallOpen key_value_string_t
  | CallClose "32 word"
  | CallGet "32 word" key_value_string_t
  | CallDelete "32 word" key_value_string_t
  | CallSet "32 word" key_value_string_t key_value_list_u8_t
  | CallExists "32 word" key_value_string_t

record 'h world =
  hstate :: 'h
  calls :: "hostcall list"

definition called :: "'h world \<Rightarrow> 'h \<Rightarrow> hostcall \<Rightarrow> 'h world" where
  "called w h' c = \<lparr>hstate = h', calls = calls w @ [c]\<rparr>"

subsection \<open>cgo conversions\<close>

text \<open>\<open>C.int(n)\<close> for a \<open>size_t\<close> \<open>n\<close>: the low 32 bits, read as two's complement.\<close>

definition C_int :: "nat \<Rightarrow> int" where
  "C_int n = (let m = int n mod 2 ^ 32 in if m < 2 ^ 31 then m else m - 2 ^ 32)"

text \<open>\<open>C.GoBytes(p, n)\<close> and \<open>C.GoStringN(p, n)\<close> copy \<open>n\<close> bytes from \<open>p\<close> into Go memory.\<close>

definition GoBytes :: "byte list \<Rightarrow> int \<Rightarrow> fault + byte list" where
  "GoBytes p n =
     (if n < 0 then Inl LengthOutOfRange
      else if int (length p) < n then Inl OutOfBoundsRead
      else Inr (take (nat n) p))"

definition GoStringN :: "string \<Rightarrow> int \<Rightarrow> fault + string" where
  "GoStringN p n =
     (if n < 0 then Inl LengthOutOfRange
      else if int (length p) < n then Inl OutOfBoundsRead
      else Inr (take (nat n) p))"

text \<open>\<open>&x[0]\<close> is an index expression: on an empty slice it panics.\<close>

definition toCBytes :: "byte list \<Rightarrow> fault + key_value_list_u8_t" where
  "toCBytes x =
     (if x = [] then Inl IndexOutOfRange
      else Inr \<lparr>list_ptr = x, list_len = length x\<rparr>)"

text \<open>\<open>C.CString\<close> copies the string into a fresh C buffer and ends it with a NUL.\<close>

definition toCStr :: "string \<Rightarrow> key_value_string_t" where
  "toCStr x = \<lparr>str_ptr = x @ [CHR 0x00], str_len = length x\<rparr>"

subsection \<open>Errors\<close>

definition ErrorStoreTableFull :: int where "ErrorStoreTableFull = 0"
definition ErrorNoSuchStore :: int where "ErrorNoSuchStore = 1"
definition ErrorAccessDenied :: int where "ErrorAccessDenied = 2"
definition ErrorInvalidStore :: int where "ErrorInvalidStore = 3"
definition ErrorNoSuchKey :: int where "ErrorNoSuchKey = 4"
definition ErrorIO :: int where "ErrorIO = 5"

definition newError :: "int \<Rightarrow> string \<Rightarrow> Error" where
  "newError code message = \<lparr>Code = code, Message = message\<rparr>"

text \<open>The \<open>%v\<close> verb of \<open>fmt.Sprintf\<close> on an integer: its decimal digits, with a sign.\<close>

definition digit_char :: "nat \<Rightarrow> char" where
  "digit_char d = char_of (48 + d)"

fun fmt_nat :: "nat \<Rightarrow> string" where
  "fmt_nat n = (if n < 10 then [digit_char n] else fmt_nat (n div 10) @ [digit_char (n mod 10)])"

declare fmt_nat.simps [simp del]

definition fmt_int :: "int \<Rightarrow> string" where
  "fmt_int i = (if i < 0 then CHR ''-'' # fmt_nat (nat (- i)) else fmt_nat (nat i))"

definition toErr :: "key_value_error_t \<Rightarrow> fault + Error" where
  "toErr err =
     (if tag err = ErrorStoreTableFull then Inr (newError ErrorStoreTableFull ''store table full'')
      else if tag err = ErrorNoSuchStore then Inr (newError ErrorNoSuchStore ''no such store'')
      else if tag err = ErrorAccessDenied then Inr (newError ErrorAccessDenied ''access denied'')
      else if tag err = ErrorInvalidStore then Inr (newError ErrorInvalidStore ''invalid store'')
      else if tag err = ErrorNoSuchKey then Inr (newError ErrorNoSuchKey ''no such key'')
      else if tag err = ErrorIO then
        (case GoStringN (str_ptr (val err)) (C_int (str_len (val err))) of
           Inl f \<Rightarrow> Inl f
         | Inr m \<Rightarrow> Inr (newError ErrorIO (''io error: '' @ m)))
      else Inr (newError (tag err) (''unrecognized error: '' @ fmt_int (tag err))))"

subsection \<open>The Store\<close>

definition NewStore :: "string \<Rightarrow> Store" where
  "NewStore nm = \<lparr>name = nm, active = False, ptr = 0\<rparr>"

text \<open>Every method returns what the Go method returns (or the fault that stopped it),
  the Store as the method leaves it, and the world after the host calls it made.\<close>

definition Store_open :: "'h host \<Rightarrow> Store \<Rightarrow> 'h world \<Rightarrow> (fault + Error option) \<times> Store \<times> 'h world" where
  "Store_open H s w =
     (if active s then (Inr None, s, w)
      else
        let cname = toCStr (name s);
            (ret, h') = key_value_open H cname (hstate w);
            w' = called w h' (CallOpen cname)
        in case ret of
             Err e \<Rightarrow> (case toErr e of Inl f \<Rightarrow> (Inl f, s, w') | Inr er \<Rightarrow> (Inr (Some er), s, w'))
           | Ok p \<Rightarrow> (Inr None, s\<lparr>ptr := p, active := True\<rparr>, w'))"

definition Store_Open :: "'h host \<Rightarrow> Store \<Rightarrow> 'h world \<Rightarrow> (fault + Error option) \<times> Store \<times> 'h world" where
  "Store_Open H s w = Store_open H s w"

definition Store_Close :: "'h host \<Rightarrow> Store \<Rightarrow> 'h world \<Rightarrow> (fault + unit) \<times> Store \<times> 'h world" where
  "Store_Close H s w =
     (let w' = (if active s
                then called w (key_value_close H (ptr s) (hstate w)) (CallClose (ptr s))
                else w)
      in (Inr (), s\<lparr>active := False\<rparr>, w'))"

definition Store_Get :: "'h host \<Rightarrow> Store \<Rightarrow> string \<Rightarrow> 'h world \<Rightarrow> (fault + byte list \<times> Error option) \<times> Store \<times> 'h world" where
  "Store_Get H s key w =
     (let ckey = toCStr key;
          (ret, h') = key_value_get H (ptr s) ckey (hstate w);
          w' = called w h' (CallGet (ptr s) ckey)
      in case ret of
           Err e \<Rightarrow> (case toErr e of Inl f \<Rightarrow> (Inl f, s, w') | Inr er \<Rightarrow> (Inr ([], Some er), s, w'))
         | Ok lst \<Rightarrow>
             (case GoBytes (list_ptr lst) (C_int (list_len lst)) of
                Inl f \<Rightarrow> (Inl f, s, w')
              | Inr b \<Rightarrow> (Inr (b, None), s, w')))"

definition Store_Delete :: "'h host \<Rightarrow> Store \<Rightarrow> string \<Rightarrow> 'h world \<Rightarrow> (fault + Error option) \<times> Store \<times> 'h world" where
  "Store_Delete H s key w =
     (let ckey = toCStr key;
          (ret, h') = key_value_delete H (ptr s) ckey (hstate w);
          w' = called w h' (CallDelete (ptr s) ckey)
      in case ret of
           Err e \<Rightarrow> (case toErr e of Inl f \<Rightarrow> (Inl f, s, w') | Inr er \<Rightarrow> (Inr (Some er), s, w'))
         | Ok u \<Rightarrow> (Inr None, s, w'))"

definition Store_Set :: "'h host \<Rightarrow> Store \<Rightarrow> string \<Rightarrow> byte list \<Rightarrow> 'h world \<Rightarrow> (fault + Error option) \<times> Store \<times> 'h world" where
  "Store_Set H s key v w =
     (let ckey = toCStr key in
      case toCBytes v of
        Inl f \<Rightarrow> (Inl f, s, w)
      | Inr cbytes \<Rightarrow>
          (let (ret, h') = key_value_set H (ptr s) ckey cbytes (hstate w);
               w' = called w h' (CallSet (ptr s) ckey cbytes)
           in (case ret of
                 Err e \<Rightarrow> (case toErr e of Inl f \<Rightarrow> (Inl f, s, w') | Inr er \<Rightarrow> (Inr (Some er), s, w'))
               | Ok u \<Rightarrow> (Inr None, s, w'))))"

definition Store_Exists :: "'h host \<Rightarrow> Store \<Rightarrow> string \<Rightarrow> 'h world \<Rightarrow> (fault + bool \<times> Error option) \<times> Store \<times> 'h world" where
  "Store_Exists H s key w =
     (let ckey = toCStr key;
          (ret, h') = key_value_exists H (ptr s) ckey (hstate w);
          w' = called w h' (CallExists (ptr s) ckey)
      in case ret of
           Err e \<Rightarrow> (case toErr e of Inl f \<Rightarrow> (Inl f, s, w') | Inr er \<Rightarrow> (Inr (False, Some er), s, w'))
         | Ok b \<Rightarrow> (Inr (b, None), s, w'))"

subsection \<open>A reference host\<close>

text \<open>
  Modelled from the spec: the host store behind the six imported functions, which is not
  part of the sources. It serves a fixed list of named stores, hands out handles that
  are never live twice, answers an unknown name with NoSuchStore, a handle that is not
  open with InvalidStore and a missing key with NoSuchKey, and keeps what was set.
\<close>

record host_state =
  stores :: "string list"
  handles :: "(32 word \<times> string) list"
  next_handle :: "32 word"
  contents :: "((string \<times> string) \<times> byte list) list"

definition read_str :: "key_value_string_t \<Rightarrow> string" where
  "read_str d = take (str_len d) (str_ptr d)"

definition read_list :: "key_value_list_u8_t \<Rightarrow> byte list" where
  "read_list d = take (list_len d) (list_ptr d)"

definition mk_err :: "int \<Rightarrow> key_value_error_t" where
  "mk_err t = \<lparr>tag = t, val = \<lparr>str_ptr = [], str_len = 0\<rparr>\<rparr>"

definition ref_open :: "key_value_string_t \<Rightarrow> host_state \<Rightarrow> key_value_store_t expected \<times> host_state" where
  "ref_open d h =
     (let n = read_str d in
      if n \<notin> set (stores h) then (Err (mk_err ErrorNoSuchStore), h)
      else if next_handle h \<in> fst ` set (handles h) then (Err (mk_err ErrorStoreTableFull), h)
      else (Ok (next_handle h),
            h\<lparr>handles := (next_handle h, n) # handles h, next_handle := next_handle h + 1\<rparr>))"

definition ref_close :: "32 word \<Rightarrow> host_state \<Rightarrow> host_state" where
  "ref_close p h = h\<lparr>handles := filter (\<lambda>e. fst e \<noteq> p) (handles h)\<rparr>"

definition ref_get :: "32 word \<Rightarrow> key_value_string_t \<Rightarrow> host_state \<Rightarrow> key_value_list_u8_t expected \<times> host_state" where
  "ref_get p d h =
     (case map_of (handles h) p of
        None \<Rightarrow> (Err (mk_err ErrorInvalidStore), h)
      | Some n \<Rightarrow>
          (case map_of (contents h) (n, read_str d) of
             None \<Rightarrow> (Err (mk_err ErrorNoSuchKey), h)
           | Some v \<Rightarrow> (Ok \<lparr>list_ptr = v, list_len = length v\<rparr>, h)))"

definition ref_delete :: "32 word \<Rightarrow> key_value_string_t \<Rightarrow> host_state \<Rightarrow> unit expected \<times> host_state" where
  "ref_delete p d h =
     (case map_of (handles h) p of
        None \<Rightarrow> (Err (mk_err ErrorInvalidStore), h)
      | Some n \<Rightarrow> (Ok (), h\<lparr>contents := filter (\<lambda>e. fst e \<noteq> (n, read_str d)) (contents h)\<rparr>))"

definition ref_set :: "32 word \<Rightarrow> key_value_string_t \<Rightarrow> key_value_list_u8_t \<Rightarrow> host_state \<Rightarrow> unit expected \<times> host_state" where
  "ref_set p d b h =
     (case map_of (handles h) p of
        None \<Rightarrow> (Err (mk_err ErrorInvalidStore), h)
      | Some n \<Rightarrow> (Ok (), h\<lparr>contents := ((n, read_str d), read_list b) # contents h\<rparr>))"

definition ref_exists :: "32 word \<Rightarrow> key_value_string_t \<Rightarrow> host_state \<Rightarrow> bool expected \<times> host_state" where
  "ref_exists p d h =
     (case map_of (handles h) p of
        None \<Rightarrow> (Err (mk_err ErrorInvalidStore), h)
      | Some n \<Rightarrow> (Ok (map_of (contents h) (n, read_str d) \<noteq> None), h))"

definition ref_host :: "host_state host" where
  "ref_host =
     \<lparr>key_value_open = ref_open, key_value_close = ref_close, key_value_get = ref_get,
      key_value_delete = ref_delete, key_value_set = ref_set, key_value_exists = ref_exists\<rparr>"

text \<open>A host that serves the given names and has no handle open, with no call made yet.\<close>

definition fresh_world :: "string list \<Rightarrow> host_state world" where
  "fresh_world ns =
     \<lparr>hstate = \<lparr>stores = ns, handles = [], next_handle = 0, contents = []\<rparr>, calls = []\<rparr>"

text \<open>A descriptor holds a string when its length is the string's and the region starts with it.\<close>

definition holds_str :: "key_value_string_t \<Rightarrow> string \<Rightarrow> bool" where
  "holds_str d m \<longleftrightarrow> str_len d = length m \<and> take (length m) (str_ptr d) = m"

text \<open>The world after \<open>Open\<close> has succeeded on a fresh host that serves the store "default".\<close>

definition opened_world :: "host_state world" where
  "opened_world =
     \<lparr>hstate = \<lparr>stores = [''default''], handles = [(0, ''default'')], next_handle = 1,
                contents = []\<rparr>,
      calls = [CallOpen (toCStr ''default'')]\<rparr>"

section \<open>Properties\<close>

lemmas Error_consts =
  ErrorStoreTableFull_def ErrorNoSuchStore_def ErrorAccessDenied_def
  ErrorInvalidStore_def ErrorNoSuchKey_def ErrorIO_def

lemmas ref_defs =
  ref_host_def ref_open_def ref_close_def ref_get_def ref_delete_def ref_set_def
  ref_exists_def read_str_def read_list_def mk_err_def fresh_world_def

lemmas eval_defs =
  Store_Open_def Store_open_def Store_Close_def Store_Get_def Store_Delete_def
  Store_Set_def Store_Exists_def NewStore_def ref_defs toCStr_def toCBytes_def called_def
  Let_def toErr_def newError_def Error_consts GoBytes_def GoStringN_def C_int_def

lemma C_int_small: "n < 2 ^ 31 \<Longrightarrow> C_int n = int n"
  by (simp add: C_int_def Let_def)

subsection \<open>The data operations and the connection\<close>

text \<open>
  C1 (as stated, refuted). On a Store that was never opened, over a host that does serve
  the store's name, \<open>Get\<close> makes exactly one host call, the get itself with the zero
  handle; no open call is made, the Store is still inactive afterwards, and the caller
  gets the host's InvalidStore error.
\<close>

theorem Store_Get_closed_no_open:
  "Store_Get ref_host (NewStore ''cache'') ''missing'' (fresh_world [''cache''])
     = (Inr ([], Some \<lparr>Code = 3, Message = ''invalid store''\<rparr>),
        \<lparr>name = ''cache'', active = False, ptr = 0\<rparr>,
        \<lparr>hstate = \<lparr>stores = [''cache''], handles = [], next_handle = 0, contents = []\<rparr>,
         calls = [CallGet 0 (toCStr ''missing'')]\<rparr>)"
  by (simp add: eval_defs)

text \<open>
  C1 (amended). The data operations do not open the connection. On every Store, active
  or not, \<open>Get\<close>, \<open>Delete\<close> and \<open>Exists\<close> make exactly one host call, their own, with the
  stored handle and the encoded key, and so does \<open>Set\<close> for a non-empty value; none of
  the four changes the active flag.
\<close>

theorem data_ops_one_call:
  "calls (snd (snd (Store_Get H s key w))) = calls w @ [CallGet (ptr s) (toCStr key)]
   \<and> calls (snd (snd (Store_Delete H s key w))) = calls w @ [CallDelete (ptr s) (toCStr key)]
   \<and> calls (snd (snd (Store_Exists H s key w))) = calls w @ [CallExists (ptr s) (toCStr key)]
   \<and> (v \<noteq> [] \<longrightarrow> calls (snd (snd (Store_Set H s key v w)))
         = calls w @ [CallSet (ptr s) (toCStr key) \<lparr>list_ptr = v, list_len = length v\<rparr>])
   \<and> active (fst (snd (Store_Get H s key w))) = active s
   \<and> active (fst (snd (Store_Delete H s key w))) = active s
   \<and> active (fst (snd (Store_Exists H s key w))) = active s
   \<and> active (fst (snd (Store_Set H s key v w))) = active s"
  by (simp add: Store_Get_def Store_Set_def Store_Delete_def Store_Exists_def Let_def
      called_def toCBytes_def split: prod.splits expected.splits sum.splits)

theorem data_ops_one_call_witness:
  "[1, 2] \<noteq> ([] :: byte list)
   \<and> calls (snd (snd (Store_Set ref_host (NewStore ''cache'') ''k'' [1, 2]
        (fresh_world [''cache'']))))
     = [CallSet 0 (toCStr ''k'') \<lparr>list_ptr = [1, 2], list_len = 2\<rparr>]
   \<and> \<not> active (fst (snd (Store_Set ref_host (NewStore ''cache'') ''k'' [1, 2]
        (fresh_world [''cache'']))))"
  using data_ops_one_call [of ref_host "NewStore ''cache''" "''k''" "fresh_world [''cache'']" "[1, 2]"]
  by (simp add: NewStore_def fresh_world_def)

subsection \<open>Encoding a byte slice\<close>

text \<open>
  C2 (the code departs from the claim). \<open>toCBytes\<close> takes the address of the first
  element without looking at the length: on the empty slice it stops with an index
  fault instead of producing a descriptor.
\<close>

theorem toCBytes_empty: "toCBytes [] = Inl IndexOutOfRange"
  by (simp add: toCBytes_def)

text \<open>
  C3 (the code departs from the claim). On a Store opened over the reference host,
  \<open>Set\<close> of the key "k" with the empty value stops with the index fault of \<open>toCBytes\<close>
  before any host call, and the following \<open>Get\<close> of "k" reports NoSuchKey instead of
  returning the empty value.
\<close>

theorem Set_empty_then_Get:
  "Store_Open ref_host (NewStore ''default'') (fresh_world [''default''])
     = (Inr None, \<lparr>name = ''default'', active = True, ptr = 0\<rparr>, opened_world)
   \<and> Store_Set ref_host \<lparr>name = ''default'', active = True, ptr = 0\<rparr> ''k'' [] opened_world
     = (Inl IndexOutOfRange, \<lparr>name = ''default'', active = True, ptr = 0\<rparr>, opened_world)
   \<and> fst (Store_Get ref_host \<lparr>name = ''default'', active = True, ptr = 0\<rparr> ''k'' opened_world)
     = Inr ([], Some \<lparr>Code = 4, Message = ''no such key''\<rparr>)"
  by (simp add: eval_defs opened_world_def)

text \<open>The fault does not depend on the host, the Store or the key.\<close>

lemma Store_Set_empty_value: "Store_Set H s key [] w = (Inl IndexOutOfRange, s, w)"
  by (simp add: Store_Set_def toCBytes_def)

text \<open>For a non-empty value (of a length that fits \<open>C.int\<close>) the round trip does hold over
  the reference host, on every Store whose handle is open there.\<close>

lemma Set_Get_roundtrip_nonempty:
  assumes "map_of (handles (hstate w)) (ptr s) = Some n"
    and "v \<noteq> []" and "length v < 2 ^ 31"
    and "Store_Set ref_host s k v w = (r, s1, w1)"
  shows "r = Inr None \<and> fst (Store_Get ref_host s1 k w1) = Inr (v, None)"
  using assms
  by (auto simp add: Store_Set_def Store_Get_def ref_defs toCStr_def toCBytes_def called_def
      Let_def GoBytes_def C_int_small)

subsection \<open>The error decoder\<close>



text \<open>
  C5 (as stated, refuted). The decoder is not free of faults on every tag: for the IO
  tag it copies the payload with \<open>C.GoStringN(str.ptr, C.int(str.len))\<close>, and a payload
  that holds a message of 2^31 bytes has a length that \<open>C.int\<close> turns negative, which
  stops the copy.
\<close>

theorem toErr_IO_length_fault:
  "holds_str \<lparr>str_ptr = replicate 2147483648 (CHR ''x''), str_len = 2147483648\<rparr>
     (replicate 2147483648 (CHR ''x''))
   \<and> toErr \<lparr>tag = 5, val = \<lparr>str_ptr = replicate 2147483648 (CHR ''x''), str_len = 2147483648\<rparr>\<rparr>
     = Inl LengthOutOfRange"
  by (simp add: holds_str_def toErr_def Error_consts GoStringN_def C_int_def)

text \<open>
  C5 (amended). A tag outside 0 to 5 is decoded without a fault into an Error whose code
  is the tag itself and whose message is "unrecognized error: " followed by the tag in
  decimal, whatever the payload region holds. For every tag other than IO, whatever the
  payload, and for IO when the payload length is below 2^31 and within the payload
  region, the decoder returns an Error, and its code is the tag.
\<close>

theorem toErr_every_tag:
  "(t < 0 \<or> 5 < t \<longrightarrow>
      toErr \<lparr>tag = t, val = p\<rparr>
        = Inr \<lparr>Code = t, Message = ''unrecognized error: '' @ fmt_int t\<rparr>)
   \<and> (t \<noteq> 5 \<or> (str_len p < 2 ^ 31 \<and> str_len p \<le> length (str_ptr p)) \<longrightarrow>
      (\<exists>e. toErr \<lparr>tag = t, val = p\<rparr> = Inr e \<and> Code e = t))"
  by (auto simp add: toErr_def Error_consts newError_def GoStringN_def C_int_small)

theorem toErr_every_tag_witness:
  "((99::int) < 0 \<or> 5 < (99::int))
   \<and> toErr \<lparr>tag = 99, val = \<lparr>str_ptr = [], str_len = 0\<rparr>\<rparr>
     = Inr \<lparr>Code = 99, Message = ''unrecognized error: 99''\<rparr>
   \<and> (\<exists>e. toErr \<lparr>tag = 5, val = \<lparr>str_ptr = ''disk full'', str_len = 9\<rparr>\<rparr> = Inr e \<and> Code e = 5)
   \<and> (\<exists>e. toErr \<lparr>tag = 3, val = \<lparr>str_ptr = [], str_len = 2147483648\<rparr>\<rparr> = Inr e \<and> Code e = 3)"
proof -
  have f: "fmt_int 99 = ''99''" by code_simp
  show ?thesis
    using toErr_every_tag [of 99 "\<lparr>str_ptr = [], str_len = 0\<rparr>"]
      toErr_every_tag [of 5 "\<lparr>str_ptr = ''disk full'', str_len = 9\<rparr>"]
      toErr_every_tag [of 3 "\<lparr>str_ptr = [], str_len = 2147483648\<rparr>"]
    by (simp add: f)
qed

subsection \<open>Open and Close\<close>

text \<open>
  C6. When \<open>Open\<close> has returned without an error, the Store is active, and a second
  \<open>Open\<close> right after it returns without an error and leaves both the Store (handle and
  active flag included) and the world (host state and the list of host calls) as they
  were: the host is not called again.
\<close>

theorem Store_Open_twice:
  "Store_Open H s w = (Inr None, s', w') \<Longrightarrow>
   active s' \<and> Store_Open H s' w' = (Inr None, s', w')"
  by (auto simp add: Store_Open_def Store_open_def Let_def
      split: if_splits prod.splits expected.splits sum.splits)

theorem Store_Open_twice_witness:
  "Store_Open ref_host (NewStore ''default'') (fresh_world [''default''])
     = (Inr None, \<lparr>name = ''default'', active = True, ptr = 0\<rparr>, opened_world)
   \<and> active \<lparr>name = ''default'', active = True, ptr = 0\<rparr>
   \<and> Store_Open ref_host \<lparr>name = ''default'', active = True, ptr = 0\<rparr> opened_world
     = (Inr None, \<lparr>name = ''default'', active = True, ptr = 0\<rparr>, opened_world)"
proof -
  have first: "Store_Open ref_host (NewStore ''default'') (fresh_world [''default''])
     = (Inr None, \<lparr>name = ''default'', active = True, ptr = 0\<rparr>, opened_world)"
    by (simp add: Store_Open_def Store_open_def NewStore_def ref_defs toCStr_def called_def
        Let_def opened_world_def)
  from Store_Open_twice [OF first] first show ?thesis by simp
qed



text \<open>
  C8. \<open>Close\<close> returns normally on every Store and leaves it inactive, with name and
  handle as they were. On an active Store it makes the host close call with the stored
  handle, and nothing else; on an inactive Store it leaves the world as it is. A second
  \<open>Close\<close> right after the first changes neither the Store nor the world.
\<close>

theorem Store_Close_spec:
  "fst (Store_Close H s w) = Inr ()
   \<and> fst (snd (Store_Close H s w)) = s\<lparr>active := False\<rparr>
   \<and> (active s \<longrightarrow> snd (snd (Store_Close H s w))
         = \<lparr>hstate = key_value_close H (ptr s) (hstate w), calls = calls w @ [CallClose (ptr s)]\<rparr>)
   \<and> (\<not> active s \<longrightarrow> snd (snd (Store_Close H s w)) = w)
   \<and> Store_Close H (fst (snd (Store_Close H s w))) (snd (snd (Store_Close H s w)))
       = (Inr (), fst (snd (Store_Close H s w)), snd (snd (Store_Close H s w)))"
  by (simp add: Store_Close_def Let_def called_def)

theorem Store_Close_spec_witness:
  "active \<lparr>name = ''default'', active = True, ptr = 0\<rparr>
   \<and> calls (snd (snd (Store_Close ref_host \<lparr>name = ''default'', active = True, ptr = 0\<rparr>
        opened_world)))
      = [CallOpen (toCStr ''default''), CallClose 0]
   \<and> \<not> active (NewStore ''default'')
   \<and> snd (snd (Store_Close ref_host (NewStore ''default'') (fresh_world [''default''])))
      = fresh_world [''default'']"
  using Store_Close_spec [of ref_host "\<lparr>name = ''default'', active = True, ptr = 0\<rparr>" opened_world]
    Store_Close_spec [of ref_host "NewStore ''default''" "fresh_world [''default'']"]
  by (simp add: NewStore_def opened_world_def)

subsection \<open>Results of the data operations\<close>

text \<open>
  C9. When \<open>Exists\<close> returns an error, the boolean beside it is false.
\<close>

theorem Store_Exists_error_false:
  "Store_Exists H s key w = (Inr (b, Some e), s', w') \<Longrightarrow> \<not> b"
  by (auto simp add: Store_Exists_def Let_def split: prod.splits expected.splits sum.splits)

theorem Store_Exists_error_false_witness:
  "Store_Exists ref_host (NewStore ''cache'') ''missing'' (fresh_world [''cache''])
     = (Inr (False, Some \<lparr>Code = 3, Message = ''invalid store''\<rparr>), NewStore ''cache'',
        called (fresh_world [''cache'']) (hstate (fresh_world [''cache'']))
          (CallExists 0 (toCStr ''missing'')))
   \<and> \<not> False"
proof -
  have e: "Store_Exists ref_host (NewStore ''cache'') ''missing'' (fresh_world [''cache''])
     = (Inr (False, Some \<lparr>Code = 3, Message = ''invalid store''\<rparr>), NewStore ''cache'',
        called (fresh_world [''cache'']) (hstate (fresh_world [''cache'']))
          (CallExists 0 (toCStr ''missing'')))"
    by (simp add: eval_defs)
  from Store_Exists_error_false [OF e] e show ?thesis by simp
qed

text \<open>
  C10. \<open>Get\<close>, \<open>Set\<close>, \<open>Delete\<close> and \<open>Exists\<close> leave the Store as it was, name, active flag
  and handle, whatever the host answers and whether the call succeeds, fails or stops
  with a fault.
\<close>

theorem data_ops_keep_store:
  "fst (snd (Store_Get H s key w)) = s
   \<and> fst (snd (Store_Set H s key v w)) = s
   \<and> fst (snd (Store_Delete H s key w)) = s
   \<and> fst (snd (Store_Exists H s key w)) = s"
  by (simp add: Store_Get_def Store_Set_def Store_Delete_def Store_Exists_def Let_def
      split: prod.splits expected.splits sum.splits)

end
